theory Spec2Isabelle
  imports Main "HOL-Library.Word" "HOL-Library.Sublist"
begin

section \<open>The comment service (internal/services/commentservice/comment.go)\<close>

subsection \<open>Domain values\<close>

text \<open>
  Modelled from the spec: the package \<open>domain\<close> (the types \<open>User\<close> and \<open>Comment\<close>, the
  sentinel errors, \<open>NewID\<close>) is not among the sources. The fields of \<open>Comment\<close> are the
  ones \<open>Service.Create\<close> fills in, in the order it fills them; \<open>User\<close> has the identity
  \<open>Service.Update\<close> compares (an \<open>int64\<close>, the argument type of \<open>GetUser\<close>) and the two
  display fields the client page prints. A \<open>time.Time\<close> is an instant, here an integer.
\<close>

type_synonym int64 = "64 word"

type_synonym time = int

record User =
  User_ID :: int64
  FirstName :: string
  LastName :: string

record Comment =
  ID :: string
  PostID :: string
  User :: User
  Body :: string
  CreatedAt :: time
  UpdatedAt :: time

text \<open>
  Modelled from the spec: the sentinel errors of package \<open>domain\<close>, named as the service
  names them. A Go error is any value of an interface type, so beside the six sentinels
  there are errors the collaborators make up (\<open>Other\<close>) and errors that wrap another one
  (\<open>Wrap\<close>, what \<open>fmt.Errorf\<close> with \<open>%w\<close> builds). \<open>errors.Is err target\<close> walks the chain
  of wrapped errors and compares each link with the target.
\<close>

datatype error =
    ErrInvalidID
  | ErrInvalidArg
  | ErrUserNotFound
  | ErrCommentNotFound
  | ErrUnauthorized
  | ErrInternal
  | Other string
  | Wrap string error

fun errors_Is :: "error \<Rightarrow> error \<Rightarrow> bool" where
  "errors_Is (Wrap msg inner) target = (Wrap msg inner = target \<or> errors_Is inner target)"
| "errors_Is err target = (err = target)"

text \<open>
  The request values of the three mutating operations. Their declarations are in a file
  of the package that is not among the sources; the fields are the ones the service reads.
  Each field carries the name of its operation in front, since a field name is global.
\<close>

record CreateCommentDTO =
  create_UserID :: int64
  create_PostID :: string
  create_Body :: string

record UpdateCommentDTO =
  update_CommentID :: string
  update_UserID :: int64
  update_Body :: string

record DeleteCommentDTO =
  delete_CommentID :: string
  delete_UserID :: int64

subsection \<open>The collaborators\<close>

text \<open>
  The service holds five interfaces (\<open>Provider\<close>, \<open>Creator\<close>, \<open>Updater\<close>, \<open>Deleter\<close>,
  \<open>UserProvider\<close>) and knows nothing of what is behind them. A port is a function on the
  state \<open>'w\<close> of everything outside the service (the storage, the directory, the clock,
  the identifier source): it takes that state, returns a result and the state it leaves.
  A Go result pair \<open>(value, err)\<close> is the sum \<open>error + value\<close>: the service reads the
  value only when \<open>err\<close> is nil. \<open>'f\<close> is \<open>domain.Filter\<close> and \<open>'m\<close> is
  \<open>domain.PaginationMetadata\<close>, both opaque to the service. \<open>NewID\<close> and \<open>Now\<close> stand for
  \<open>domain.NewID()\<close> and \<open>time.Now()\<close>, which read the identifier source and the clock:
  each call returns a value and may leave them changed. The \<open>context.Context\<close> every
  operation receives is handed to each port as it is and is left out.
\<close>

record ('w, 'f, 'm) Service =
  GetComment :: "string \<Rightarrow> 'w \<Rightarrow> (error + Comment) \<times> 'w"
  ListPostComments :: "string \<Rightarrow> 'f \<Rightarrow> 'w \<Rightarrow> (error + Comment list \<times> 'm) \<times> 'w"
  CreateComment :: "Comment \<Rightarrow> 'w \<Rightarrow> (error + Comment) \<times> 'w"
  UpdateComment :: "Comment \<Rightarrow> 'w \<Rightarrow> (error + Comment) \<times> 'w"
  DeleteComment :: "string \<Rightarrow> 'w \<Rightarrow> error option \<times> 'w"
  GetUser :: "int64 \<Rightarrow> 'w \<Rightarrow> (error + User) \<times> 'w"
  NewID :: "'w \<Rightarrow> string \<times> 'w"
  Now :: "'w \<Rightarrow> time \<times> 'w"

text \<open>
  What a run of an operation leaves behind: the state of the collaborators, the port
  invocations in the order they were made (what a mock of the interface records), and
  the lines written with \<open>log.Error\<close>, each the operation name and the error.
\<close>

datatype 'f call =
    Call_GetComment string
  | Call_ListPostComments string 'f
  | Call_CreateComment Comment
  | Call_UpdateComment Comment
  | Call_DeleteComment string
  | Call_GetUser int64

record ('w, 'f) run =
  world :: 'w
  calls :: "'f call list"
  logged :: "(string \<times> error) list"

definition invoke :: "'f call \<Rightarrow> ('w \<Rightarrow> 'r \<times> 'w) \<Rightarrow> ('w, 'f) run \<Rightarrow> 'r \<times> ('w, 'f) run" where
  "invoke c port s =
     (case port (world s) of
        (r, w') \<Rightarrow> (r, s\<lparr>world := w', calls := calls s @ [c]\<rparr>))"

definition ambient :: "('w \<Rightarrow> 'r \<times> 'w) \<Rightarrow> ('w, 'f) run \<Rightarrow> 'r \<times> ('w, 'f) run" where
  "ambient f s = (case f (world s) of (r, w') \<Rightarrow> (r, s\<lparr>world := w'\<rparr>))"

definition is_mutating :: "'f call \<Rightarrow> bool" where
  "is_mutating c =
     (case c of
        Call_CreateComment _ \<Rightarrow> True
      | Call_UpdateComment _ \<Rightarrow> True
      | Call_DeleteComment _ \<Rightarrow> True
      | _ \<Rightarrow> False)"

definition new_calls :: "('w, 'f) run \<Rightarrow> ('w, 'f) run \<Rightarrow> 'f call list" where
  "new_calls s s' = drop (length (calls s)) (calls s')"

subsection \<open>The operations\<close>

text \<open>
  \<open>handleErr\<close> takes the operation name and the error; its logger is the \<open>logged\<close>
  component of the run. Each operation follows its Go body statement by statement: a
  port call, the test of its error, and the early return through \<open>handleErr\<close>.
\<close>

definition handleErr :: "string \<Rightarrow> error \<Rightarrow> ('w, 'f) run \<Rightarrow> error \<times> ('w, 'f) run" where
  "handleErr op err s =
     (if errors_Is err ErrInvalidID then (err, s)
      else if errors_Is err ErrUserNotFound \<or> errors_Is err ErrCommentNotFound then (err, s)
      else if errors_Is err ErrInvalidArg then (err, s)
      else (ErrInternal, s\<lparr>logged := logged s @ [(op, err)]\<rparr>))"

definition Create ::
  "('w, 'f, 'm) Service \<Rightarrow> CreateCommentDTO \<Rightarrow> ('w, 'f) run \<Rightarrow> (error + Comment) \<times> ('w, 'f) run" where
  "Create S comment s0 =
     (case invoke (Call_GetUser (create_UserID comment)) (GetUser S (create_UserID comment)) s0 of
        (Inl err, s1) \<Rightarrow> apfst Inl (handleErr ''service.comment.create'' err s1)
      | (Inr user, s1) \<Rightarrow>
          (let (newid, s2) = ambient (NewID S) s1;
               (created, s3) = ambient (Now S) s2;
               (updated, s4) = ambient (Now S) s3;
               c = \<lparr>ID = newid, PostID = create_PostID comment, User = user,
                    Body = create_Body comment, CreatedAt = created, UpdatedAt = updated\<rparr>
           in (case invoke (Call_CreateComment c) (CreateComment S c) s4 of
                 (Inl err, s5) \<Rightarrow> apfst Inl (handleErr ''service.comment.create'' err s5)
               | (Inr createdComment, s5) \<Rightarrow> (Inr createdComment, s5))))"

definition Update ::
  "('w, 'f, 'm) Service \<Rightarrow> UpdateCommentDTO \<Rightarrow> ('w, 'f) run \<Rightarrow> (error + Comment) \<times> ('w, 'f) run" where
  "Update S dto s0 =
     (case invoke (Call_GetComment (update_CommentID dto)) (GetComment S (update_CommentID dto)) s0 of
        (Inl err, s1) \<Rightarrow> apfst Inl (handleErr ''service.comment.update'' err s1)
      | (Inr comment, s1) \<Rightarrow>
          (if User_ID (User comment) \<noteq> update_UserID dto then (Inl ErrUnauthorized, s1)
           else
             (let (now, s2) = ambient (Now S) s1;
                  comment' = comment\<lparr>Body := update_Body dto, UpdatedAt := now\<rparr>
              in (case invoke (Call_UpdateComment comment') (UpdateComment S comment') s2 of
                    (Inl err, s3) \<Rightarrow> apfst Inl (handleErr ''service.comment.update'' err s3)
                  | (Inr updatedComment, s3) \<Rightarrow> (Inr updatedComment, s3)))))"

definition Delete ::
  "('w, 'f, 'm) Service \<Rightarrow> DeleteCommentDTO \<Rightarrow> ('w, 'f) run \<Rightarrow> error option \<times> ('w, 'f) run" where
  "Delete S dto s0 =
     (case invoke (Call_GetComment (delete_CommentID dto)) (GetComment S (delete_CommentID dto)) s0 of
        (Inl err, s1) \<Rightarrow> apfst Some (handleErr ''service.comment.delete'' err s1)
      | (Inr comment, s1) \<Rightarrow>
          (if User_ID (User comment) \<noteq> delete_UserID dto then (Some ErrUnauthorized, s1)
           else
             (case invoke (Call_DeleteComment (delete_CommentID dto))
                     (DeleteComment S (delete_CommentID dto)) s1 of
                (Some err, s2) \<Rightarrow> apfst Some (handleErr ''service.comment.delete'' err s2)
              | (None, s2) \<Rightarrow> (None, s2))))"

definition GetByID ::
  "('w, 'f, 'm) Service \<Rightarrow> string \<Rightarrow> ('w, 'f) run \<Rightarrow> (error + Comment) \<times> ('w, 'f) run" where
  "GetByID S i s0 =
     (case invoke (Call_GetComment i) (GetComment S i) s0 of
        (Inl err, s1) \<Rightarrow> apfst Inl (handleErr ''service.comment.get_by_id'' err s1)
      | (Inr comment, s1) \<Rightarrow> (Inr comment, s1))"

definition ListByPostID ::
  "('w, 'f, 'm) Service \<Rightarrow> string \<Rightarrow> 'f \<Rightarrow> ('w, 'f) run \<Rightarrow>
     (error + Comment list \<times> 'm) \<times> ('w, 'f) run" where
  "ListByPostID S postID filter' s0 =
     (case invoke (Call_ListPostComments postID filter') (ListPostComments S postID filter') s0 of
        (Inl err, s1) \<Rightarrow> apfst Inl (handleErr ''service.comment.list_by_post_id'' err s1)
      | (Inr page, s1) \<Rightarrow> (Inr page, s1))"

subsection \<open>A small set of collaborators to run the service on\<close>

text \<open>
  An in-memory stand-in for the collaborators, of the kind the package's generated mocks
  are replaced with in a test: the storage is the list of stored comments, the directory
  a list of users, the clock a counter that \<open>Now\<close> reads and then moves by \<open>tick\<close>, and
  \<open>NewID\<close> hands out \<open>n + 1\<close> letters for the \<open>n\<close>-th identifier.
\<close>

record mem =
  stored :: "Comment list"
  directory :: "User list"
  clock :: time
  tick :: int
  issued :: nat

definition mem_GetComment :: "string \<Rightarrow> mem \<Rightarrow> (error + Comment) \<times> mem" where
  "mem_GetComment i w =
     (case find (\<lambda>c. ID c = i) (stored w) of
        None \<Rightarrow> (Inl ErrCommentNotFound, w)
      | Some c \<Rightarrow> (Inr c, w))"

definition mem_ListPostComments :: "string \<Rightarrow> unit \<Rightarrow> mem \<Rightarrow> (error + Comment list \<times> nat) \<times> mem" where
  "mem_ListPostComments p f w =
     (let page = filter (\<lambda>c. PostID c = p) (stored w) in (Inr (page, length page), w))"

definition mem_CreateComment :: "Comment \<Rightarrow> mem \<Rightarrow> (error + Comment) \<times> mem" where
  "mem_CreateComment c w = (Inr c, w\<lparr>stored := stored w @ [c]\<rparr>)"

definition mem_UpdateComment :: "Comment \<Rightarrow> mem \<Rightarrow> (error + Comment) \<times> mem" where
  "mem_UpdateComment c w =
     (Inr c, w\<lparr>stored := map (\<lambda>x. if ID x = ID c then c else x) (stored w)\<rparr>)"

definition mem_DeleteComment :: "string \<Rightarrow> mem \<Rightarrow> error option \<times> mem" where
  "mem_DeleteComment i w = (None, w\<lparr>stored := filter (\<lambda>x. ID x \<noteq> i) (stored w)\<rparr>)"

definition mem_GetUser :: "int64 \<Rightarrow> mem \<Rightarrow> (error + User) \<times> mem" where
  "mem_GetUser u w =
     (case find (\<lambda>x. User_ID x = u) (directory w) of
        None \<Rightarrow> (Inl ErrUserNotFound, w)
      | Some x \<Rightarrow> (Inr x, w))"

definition mem_NewID :: "mem \<Rightarrow> string \<times> mem" where
  "mem_NewID w = (replicate (Suc (issued w)) CHR ''a'', w\<lparr>issued := Suc (issued w)\<rparr>)"

definition mem_Now :: "mem \<Rightarrow> time \<times> mem" where
  "mem_Now w = (clock w, w\<lparr>clock := clock w + tick w\<rparr>)"

definition mem_service :: "(mem, unit, nat) Service" where
  "mem_service =
     \<lparr>GetComment = mem_GetComment, ListPostComments = mem_ListPostComments,
      CreateComment = mem_CreateComment, UpdateComment = mem_UpdateComment,
      DeleteComment = mem_DeleteComment, GetUser = mem_GetUser,
      NewID = mem_NewID, Now = mem_Now\<rparr>"

definition ann :: User where
  "ann = \<lparr>User_ID = 9, FirstName = ''Ann'', LastName = ''Lee''\<rparr>"

definition c1 :: Comment where
  "c1 = \<lparr>ID = ''C1'', PostID = ''P1'', User = ann, Body = ''hi'', CreatedAt = 10, UpdatedAt = 10\<rparr>"

definition start :: "mem \<Rightarrow> (mem, unit) run" where
  "start w = \<lparr>world = w, calls = [], logged = []\<rparr>"

definition mem1 :: mem where
  "mem1 = \<lparr>stored = [c1], directory = [ann], clock = 20, tick = 1, issued = 0\<rparr>"

subsection \<open>The error taxonomy\<close>




text \<open>
  Collaborators for the runs below: a storage that answers every fetch with
  \<open>Unauthorized\<close>; a creator and an updater that answer with the zero \<open>Comment\<close> and
  no error, as a mock does when no return value was set up for it; and a storage whose
  list, create, update and delete ports fail with an error of its own.
\<close>

definition zero_Comment :: Comment where
  "zero_Comment =
     \<lparr>ID = [], PostID = [], User = \<lparr>User_ID = 0, FirstName = [], LastName = []\<rparr>,
      Body = [], CreatedAt = 0, UpdatedAt = 0\<rparr>"

definition guarded_service :: "(mem, unit, nat) Service" where
  "guarded_service = mem_service\<lparr>GetComment := \<lambda>i w. (Inl ErrUnauthorized, w)\<rparr>"

definition blank_service :: "(mem, unit, nat) Service" where
  "blank_service =
     mem_service\<lparr>CreateComment := \<lambda>c w. (Inr zero_Comment, w),
                 UpdateComment := \<lambda>c w. (Inr zero_Comment, w)\<rparr>"

definition failing_service :: "(mem, unit, nat) Service" where
  "failing_service =
     mem_service\<lparr>ListPostComments := \<lambda>p f w. (Inl (Other ''connection reset''), w),
                 CreateComment := \<lambda>c w. (Inl (Other ''connection reset''), w),
                 UpdateComment := \<lambda>c w. (Inl (Other ''connection reset''), w),
                 DeleteComment := \<lambda>i w. (Some (Other ''connection reset''), w)\<rparr>"

section \<open>The client page (the script of the HTML page)\<close>

subsection \<open>Comment and Message, and the elements they render\<close>

text \<open>
  A JavaScript string is a \<open>string\<close>. \<open>meta\<close> may be left out (\<open>undefined\<close>), which is
  \<open>None\<close>; a value is truthy when it is a string that is not empty. The user's \<open>id\<close> is
  the text JavaScript prints for it. An element is kept as the texts of its children:
  the element \<open>toHtml\<close> of \<open>Comment\<close> builds has the children of class \<open>user\<close>, \<open>body\<close>,
  \<open>created\<close>, the two buttons (whose handlers are \<open>delete_onclick\<close> and
  \<open>update_onclick\<close> below) and, when \<open>meta\<close> is truthy, \<open>meta\<close>.
\<close>

record user_js =
  u_id :: string
  first_name :: string
  last_name :: string

record Comment_js =
  c_id :: string
  c_post_id :: string
  c_user :: user_js
  c_body :: string
  c_created_at :: string
  c_updated_at :: string
  c_meta :: "string option"

record Message =
  m_time :: string
  m_text :: string
  m_meta :: "string option"

record comment_element =
  el_id :: string
  el_user :: string
  el_body :: string
  el_created :: string
  el_meta :: "string option"

record message_element =
  ml_time :: string
  ml_text :: string
  ml_meta :: "string option"

datatype node = Message_node message_element | Comment_node comment_element

definition truthy :: "string option \<Rightarrow> bool" where
  "truthy v = (case v of None \<Rightarrow> False | Some t \<Rightarrow> t \<noteq> [])"

definition Comment_toHtml :: "Comment_js \<Rightarrow> comment_element" where
  "Comment_toHtml this =
     \<lparr>el_id = ''comment-'' @ c_id this,
      el_user = u_id (c_user this) @ '' '' @ first_name (c_user this) @ '' '' @ last_name (c_user this),
      el_body = c_body this,
      el_created = c_created_at this,
      el_meta = (if truthy (c_meta this) then c_meta this else None)\<rparr>"

definition Message_toHtml :: "Message \<Rightarrow> message_element" where
  "Message_toHtml this =
     \<lparr>ml_time = m_time this, ml_text = m_text this,
      ml_meta = (if truthy (m_meta this) then m_meta this else None)\<rparr>"

fun replaceTag :: "char \<Rightarrow> string" where
  "replaceTag tag =
     (if tag = CHR ''&'' then ''&amp;''
      else if tag = CHR ''<'' then ''&lt;''
      else if tag = CHR ''>'' then ''&gt;''
      else [tag])"

definition safeTagsReplace :: "string \<Rightarrow> string" where
  "safeTagsReplace str = concat (map replaceTag str)"

subsection \<open>Publishing: deleteComment and updateComment\<close>

text \<open>
  \<open>js_split sep s\<close> is \<open>s.split(sep)\<close> for a separator of one character, and
  \<open>js_index xs n\<close> is \<open>xs[n]\<close>, \<open>undefined\<close> (\<open>None\<close>) out of range. What \<open>sub.publish\<close>
  is given is the envelope; a field whose value is \<open>undefined\<close> is \<open>None\<close>. What the
  transport answers to it (the two callbacks of \<open>then\<close>) is outside the page.
\<close>

fun js_split :: "char \<Rightarrow> string \<Rightarrow> string list" where
  "js_split sep [] = [[]]"
| "js_split sep (c # cs) =
     (if c = sep then [] # js_split sep cs
      else (case js_split sep cs of [] \<Rightarrow> [[c]] | p # ps \<Rightarrow> (c # p) # ps))"

definition js_index :: "'a list \<Rightarrow> nat \<Rightarrow> 'a option" where
  "js_index xs n = (if n < length xs then Some (xs ! n) else None)"

record envelope =
  env_type :: string
  env_comment_id :: "string option"
  env_body :: "string option"

definition deleteComment :: "string \<Rightarrow> envelope" where
  "deleteComment commentId =
     \<lparr>env_type = ''delete_comment'',
      env_comment_id = js_index (js_split CHR ''-'' commentId) 1,
      env_body = None\<rparr>"

definition updateComment :: "string \<Rightarrow> string \<Rightarrow> envelope" where
  "updateComment commentId body =
     \<lparr>env_type = ''update_comment'',
      env_comment_id = js_index (js_split CHR ''-'' commentId) 1,
      env_body = Some body\<rparr>"

definition delete_onclick :: "comment_element \<Rightarrow> envelope" where
  "delete_onclick commentElement = deleteComment (el_id commentElement)"

definition update_onclick :: "comment_element \<Rightarrow> string option \<Rightarrow> envelope option" where
  "update_onclick commentElement newBody =
     (case newBody of
        None \<Rightarrow> None
      | Some body \<Rightarrow> if body \<noteq> [] then Some (updateComment (el_id commentElement) body) else None)"

text \<open>
  The part of an element id between its first and its second \<open>-\<close> (to the end when
  there is no second one).
\<close>

definition between_dashes :: "string \<Rightarrow> string" where
  "between_dashes e =
     takeWhile (\<lambda>x. x \<noteq> CHR ''-'') (tl (dropWhile (\<lambda>x. x \<noteq> CHR ''-'') e))"

subsection \<open>Receiving: the handlers of a publication\<close>

text \<open>
  The state of the page is the list of children of the element \<open>chat-messages\<close>, in
  document order. The handlers look elements up by an id that starts with \<open>comment-\<close>;
  the elements the page has from the start (\<open>static_ids\<close>) have other ids, so the lookup
  can only find a child of \<open>chat-messages\<close>, and it finds the first one in document
  order. \<open>getElementById\<close> returns the element found together with the children before
  and after it, \<open>None\<close> for \<open>null\<close>. Scrolling (\<open>needScrollToBottom\<close>) changes no child
  and is left out, as is \<open>console.log\<close>.

  A publication context carries the envelope \<open>data\<close> (its \<open>type\<close> and \<open>payload\<close>);
  \<open>ctx_json\<close> is what \<open>JSON.stringify\<close> makes of the whole context. A payload has the
  fields the three handlers read.
\<close>

definition static_ids :: "string list" where
  "static_ids = [''chat'', ''jwt'', ''chat-messages'', ''chat-input'', ''chat-text'', ''chat-submit'']"

record payload =
  p_id :: string
  p_comment_id :: string
  p_post_id :: string
  p_user :: user_js
  p_body :: string
  p_created_at :: string
  p_updated_at :: string

record ctx =
  data_type :: string
  data_payload :: payload
  ctx_json :: string

datatype js_error = TypeError

fun getElementById :: "node list \<Rightarrow> string \<Rightarrow> (node list \<times> comment_element \<times> node list) option" where
  "getElementById [] k = None"
| "getElementById (Message_node m # ns) k =
     map_option (\<lambda>(before, e, after). (Message_node m # before, e, after)) (getElementById ns k)"
| "getElementById (Comment_node c # ns) k =
     (if el_id c = k then Some ([], c, ns)
      else map_option (\<lambda>(before, e, after). (Comment_node c # before, e, after))
             (getElementById ns k))"

definition drawText :: "string \<Rightarrow> string \<Rightarrow> string option \<Rightarrow> node list \<Rightarrow> node list" where
  "drawText now text' meta messages =
     messages @ [Message_node (Message_toHtml \<lparr>m_time = now, m_text = text', m_meta = meta\<rparr>)]"

definition drawComment :: "Comment_js \<Rightarrow> node list \<Rightarrow> node list" where
  "drawComment comment messages = messages @ [Comment_node (Comment_toHtml comment)]"

definition handleNewComment :: "ctx \<Rightarrow> node list \<Rightarrow> node list" where
  "handleNewComment ctx messages =
     (let payload = data_payload ctx;
          comment = \<lparr>c_id = p_id payload, c_post_id = p_post_id payload, c_user = p_user payload,
                     c_body = safeTagsReplace (p_body payload), c_created_at = p_created_at payload,
                     c_updated_at = p_updated_at payload, c_meta = Some (ctx_json ctx)\<rparr>
      in drawComment comment messages)"

definition handleEditComment :: "ctx \<Rightarrow> node list \<Rightarrow> js_error + node list" where
  "handleEditComment ctx messages =
     (let payload = data_payload ctx in
      case getElementById messages (''comment-'' @ p_id payload) of
        None \<Rightarrow> Inl TypeError
      | Some (before, e, after) \<Rightarrow>
          Inr (before @ [Comment_node (e\<lparr>el_body := p_body payload\<rparr>)] @ after))"

definition handleRemoveComment :: "ctx \<Rightarrow> node list \<Rightarrow> node list" where
  "handleRemoveComment ctx messages =
     (let payload = data_payload ctx in
      case getElementById messages (''comment-'' @ p_comment_id payload) of
        None \<Rightarrow> messages
      | Some (before, e, after) \<Rightarrow> before @ after)"

definition handlePublication :: "ctx \<Rightarrow> node list \<Rightarrow> js_error + node list" where
  "handlePublication ctx messages =
     (let eventType = data_type ctx in
      if eventType = ''new_comment'' then Inr (handleNewComment ctx messages)
      else if eventType = ''edit_comment'' then handleEditComment ctx messages
      else if eventType = ''remove_comment'' then Inr (handleRemoveComment ctx messages)
      else Inr messages)"

text \<open>The visible entries of a comment id: the children whose element id is that of the id.\<close>

definition entries :: "string \<Rightarrow> node list \<Rightarrow> node list" where
  "entries i messages =
     filter (\<lambda>n. case n of Message_node m \<Rightarrow> False | Comment_node e \<Rightarrow> el_id e = ''comment-'' @ i)
       messages"

text \<open>Publications and pages to run the handlers on.\<close>

definition bob :: user_js where
  "bob = \<lparr>u_id = ''5'', first_name = ''Bob'', last_name = ''Ray''\<rparr>"

definition pay :: "string \<Rightarrow> string \<Rightarrow> payload" where
  "pay i b =
     \<lparr>p_id = i, p_comment_id = i, p_post_id = ''P1'', p_user = bob, p_body = b,
      p_created_at = ''t0'', p_updated_at = ''t0''\<rparr>"

definition pub :: "string \<Rightarrow> string \<Rightarrow> string \<Rightarrow> ctx" where
  "pub ty i b = \<lparr>data_type = ty, data_payload = pay i b, ctx_json = ''{}''\<rparr>"

definition x_node :: node where
  "x_node =
     Comment_node \<lparr>el_id = ''comment-x'', el_user = ''5 Bob Ray'', el_body = ''hi'',
                   el_created = ''t0'', el_meta = Some ''{}''\<rparr>"

definition cmt :: "string \<Rightarrow> Comment_js" where
  "cmt i = \<lparr>c_id = i, c_post_id = ''P1'', c_user = bob, c_body = ''hi'', c_created_at = ''t0'',
            c_updated_at = ''t0'', c_meta = None\<rparr>"

section \<open>Authorization of Update and Delete\<close>

lemma invoke_eq:
  "port (world s) = (r, w') \<Longrightarrow> invoke c port s = (r, s\<lparr>world := w', calls := calls s @ [c]\<rparr>)"
  by (simp add: invoke_def)

lemma ambient_eq:
  "f (world s) = (r, w') \<Longrightarrow> ambient f s = (r, s\<lparr>world := w'\<rparr>)"
  by (simp add: ambient_def)

text \<open>
  C1. When the comment the fetch port returns for the request's comment id has a
  \<open>user.id\<close> other than the caller's \<open>userID\<close>, \<open>Update\<close> and \<open>Delete\<close> fail with
  \<open>Unauthorized\<close>. The comparison is with the fetched comment: the request carries no
  author of its own beside the caller's identity.
\<close>

theorem C1_not_author_is_unauthorized:
  assumes "GetComment S i (world s) = (Inr stored_comment, w')"
    and "User_ID (User stored_comment) \<noteq> caller"
  shows "fst (Update S \<lparr>update_CommentID = i, update_UserID = caller, update_Body = b\<rparr> s)
           = Inl ErrUnauthorized
       \<and> fst (Delete S \<lparr>delete_CommentID = i, delete_UserID = caller\<rparr> s) = Some ErrUnauthorized"
  using assms by (simp add: Update_def Delete_def invoke_eq)

lemma mem1_fetch_C1: "GetComment mem_service ''C1'' (world (start mem1)) = (Inr c1, mem1)"
  by (simp add: mem_service_def mem_GetComment_def start_def mem1_def c1_def)

lemma c1_author_not_7: "User_ID (User c1) \<noteq> 7"
  by (simp add: c1_def ann_def)

theorem C1_not_author_is_unauthorized_witness:
  "GetComment mem_service ''C1'' (world (start mem1)) = (Inr c1, mem1)
   \<and> User_ID (User c1) \<noteq> 7
   \<and> fst (Update mem_service \<lparr>update_CommentID = ''C1'', update_UserID = 7, update_Body = ''edited''\<rparr>
            (start mem1)) = Inl ErrUnauthorized
   \<and> fst (Delete mem_service \<lparr>delete_CommentID = ''C1'', delete_UserID = 7\<rparr> (start mem1))
       = Some ErrUnauthorized"
  using C1_not_author_is_unauthorized [OF mem1_fetch_C1 c1_author_not_7, of "''edited''"]
    mem1_fetch_C1 c1_author_not_7
  by simp

text \<open>
  C2. On that path nothing but the fetch port is invoked: the calls the failing \<open>Update\<close>
  or \<open>Delete\<close> adds to the record are the one \<open>GetComment\<close>, so neither the update
  port nor the delete port (nor any mutating port) is reached, nothing is logged, and
  the collaborators are left in the state the fetch itself left them in, which is the
  state before the call when the fetch only reads.
\<close>

theorem C2_unauthorized_invokes_no_mutation:
  assumes "GetComment S i (world s) = (Inr stored_comment, w')"
    and "User_ID (User stored_comment) \<noteq> caller"
  shows "(let s' = snd (Update S \<lparr>update_CommentID = i, update_UserID = caller, update_Body = b\<rparr> s)
          in new_calls s s' = [Call_GetComment i] \<and> \<not> list_ex is_mutating (new_calls s s')
             \<and> world s' = w' \<and> logged s' = logged s)
       \<and> (let s' = snd (Delete S \<lparr>delete_CommentID = i, delete_UserID = caller\<rparr> s)
          in new_calls s s' = [Call_GetComment i] \<and> \<not> list_ex is_mutating (new_calls s s')
             \<and> world s' = w' \<and> logged s' = logged s)"
  using assms
  by (simp add: Update_def Delete_def invoke_eq new_calls_def is_mutating_def)

theorem C2_unauthorized_invokes_no_mutation_witness:
  "GetComment mem_service ''C1'' (world (start mem1)) = (Inr c1, mem1)
   \<and> User_ID (User c1) \<noteq> 7
   \<and> calls (snd (Update mem_service
        \<lparr>update_CommentID = ''C1'', update_UserID = 7, update_Body = ''edited''\<rparr> (start mem1)))
       = [Call_GetComment ''C1'']
   \<and> world (snd (Update mem_service
        \<lparr>update_CommentID = ''C1'', update_UserID = 7, update_Body = ''edited''\<rparr> (start mem1)))
       = mem1
   \<and> calls (snd (Delete mem_service \<lparr>delete_CommentID = ''C1'', delete_UserID = 7\<rparr> (start mem1)))
       = [Call_GetComment ''C1'']
   \<and> world (snd (Delete mem_service \<lparr>delete_CommentID = ''C1'', delete_UserID = 7\<rparr> (start mem1)))
       = mem1"
  using C2_unauthorized_invokes_no_mutation [OF mem1_fetch_C1 c1_author_not_7, of "''edited''"]
    mem1_fetch_C1 c1_author_not_7
  by (simp add: new_calls_def start_def Let_def)

section \<open>Error mapping\<close>





lemma handleErr_calls: "calls (snd (handleErr op err s)) = calls s"
  by (simp add: handleErr_def)















lemma GetByID_GetComment_fails:
  "GetComment S i (world s) = (Inl e, w') \<Longrightarrow>
     GetByID S i s = apfst Inl (handleErr ''service.comment.get_by_id'' e
        (s\<lparr>world := w', calls := calls s @ [Call_GetComment i]\<rparr>))"
  by (simp add: GetByID_def invoke_eq)

lemma ListByPostID_ListPostComments_fails:
  "ListPostComments S p f (world s) = (Inl e, w') \<Longrightarrow>
     ListByPostID S p f s = apfst Inl (handleErr ''service.comment.list_by_post_id'' e
        (s\<lparr>world := w', calls := calls s @ [Call_ListPostComments p f]\<rparr>))"
  by (simp add: ListByPostID_def invoke_eq)



lemma mem1_no_C2: "GetComment mem_service ''C2'' (world (start mem1)) = (Inl ErrCommentNotFound, mem1)"
  by (simp add: mem_service_def mem_GetComment_def start_def mem1_def c1_def)

lemma mem1_no_user_7: "GetUser mem_service 7 (world (start mem1)) = (Inl ErrUserNotFound, mem1)"
  by (simp add: mem_service_def mem_GetUser_def start_def mem1_def ann_def)

lemma guarded_fetch:
  "GetComment guarded_service ''C1'' (world (start mem1)) = (Inl ErrUnauthorized, mem1)"
  by (simp add: guarded_service_def start_def)







lemma failing_list:
  "ListPostComments failing_service ''P1'' () (world (start mem1))
     = (Inl (Other ''connection reset''), mem1)"
  by (simp add: failing_service_def start_def)



section \<open>Create with an unknown user\<close>

text \<open>
  C8. When the directory port answers the request's user id with \<open>UserNotFound\<close> (the
  sentinel, or an error that wraps it), \<open>Create\<close> fails with that error. The only port
  it invokes is \<open>GetUser\<close>: the create port is not reached, no identifier and no clock
  reading is taken (the collaborators are left as the lookup left them), and nothing is
  logged.
\<close>

theorem C8_unknown_user_creates_nothing:
  assumes "GetUser S (create_UserID dto) (world s) = (Inl err, w')"
    and "errors_Is err ErrUserNotFound"
  shows "(let s' = snd (Create S dto s)
          in fst (Create S dto s) = Inl err
             \<and> new_calls s s' = [Call_GetUser (create_UserID dto)]
             \<and> \<not> list_ex is_mutating (new_calls s s')
             \<and> world s' = w' \<and> logged s' = logged s)"
  using assms
  by (simp add: Create_def invoke_eq handleErr_def new_calls_def is_mutating_def)

theorem C8_unknown_user_creates_nothing_witness:
  "GetUser mem_service 7 (world (start mem1)) = (Inl ErrUserNotFound, mem1)
   \<and> errors_Is ErrUserNotFound ErrUserNotFound
   \<and> Create mem_service \<lparr>create_UserID = 7, create_PostID = ''P1'', create_Body = ''hi''\<rparr> (start mem1)
       = (Inl ErrUserNotFound, \<lparr>world = mem1, calls = [Call_GetUser 7], logged = []\<rparr>)"
proof -
  have e: "errors_Is ErrUserNotFound ErrUserNotFound" by simp
  have "create_UserID \<lparr>create_UserID = 7, create_PostID = ''P1'', create_Body = ''hi''\<rparr> = 7"
    by simp
  with mem1_no_user_7
  have g: "GetUser mem_service
      (create_UserID \<lparr>create_UserID = 7, create_PostID = ''P1'', create_Body = ''hi''\<rparr>)
      (world (start mem1)) = (Inl ErrUserNotFound, mem1)"
    by simp
  show ?thesis
    using C8_unknown_user_creates_nothing [OF g e] mem1_no_user_7 e
    by (simp add: Let_def new_calls_def start_def prod_eq_iff run.equality)
qed

section \<open>The two reading operations\<close>

text \<open>
  C9. \<open>GetByID\<close> returns the comment the fetch port produced, and the port's
  \<open>CommentNotFound\<close> when that is its answer; \<open>ListByPostID\<close> hands the post id and the
  filter to the list port as they are and returns the page the port produced. When the
  port fails, each returns the port's error as \<open>handleErr\<close> maps it under the
  operation's name, and nothing else. On every path each of them invokes that one port
  once and no other: no create, update or delete port.
\<close>

theorem C9_reads_pass_through_both_ways:
  "(\<forall>c w'. GetComment S i (world s) = (Inr c, w') \<longrightarrow>
        GetByID S i s = (Inr c, s\<lparr>world := w', calls := calls s @ [Call_GetComment i]\<rparr>))
   \<and> (\<forall>err w'. GetComment S i (world s) = (Inl err, w') \<and> errors_Is err ErrCommentNotFound \<longrightarrow>
        GetByID S i s = (Inl err, s\<lparr>world := w', calls := calls s @ [Call_GetComment i]\<rparr>))
   \<and> (\<forall>err w'. GetComment S i (world s) = (Inl err, w') \<longrightarrow>
        GetByID S i s = apfst Inl (handleErr ''service.comment.get_by_id'' err
          (s\<lparr>world := w', calls := calls s @ [Call_GetComment i]\<rparr>)))
   \<and> new_calls s (snd (GetByID S i s)) = [Call_GetComment i]
   \<and> \<not> list_ex is_mutating (new_calls s (snd (GetByID S i s)))
   \<and> (\<forall>page w'. ListPostComments S p f (world s) = (Inr page, w') \<longrightarrow>
        ListByPostID S p f s
          = (Inr page, s\<lparr>world := w', calls := calls s @ [Call_ListPostComments p f]\<rparr>))
   \<and> (\<forall>err w'. ListPostComments S p f (world s) = (Inl err, w') \<longrightarrow>
        ListByPostID S p f s = apfst Inl (handleErr ''service.comment.list_by_post_id'' err
          (s\<lparr>world := w', calls := calls s @ [Call_ListPostComments p f]\<rparr>)))
   \<and> new_calls s (snd (ListByPostID S p f s)) = [Call_ListPostComments p f]
   \<and> \<not> list_ex is_mutating (new_calls s (snd (ListByPostID S p f s)))"
proof -
  have g: "new_calls s (snd (GetByID S i s)) = [Call_GetComment i]"
    unfolding GetByID_def invoke_def new_calls_def
    by (simp split: prod.splits sum.splits add: handleErr_calls)
  have l: "new_calls s (snd (ListByPostID S p f s)) = [Call_ListPostComments p f]"
    unfolding ListByPostID_def invoke_def new_calls_def
    by (simp split: prod.splits sum.splits add: handleErr_calls)
  have gm: "\<not> list_ex is_mutating (new_calls s (snd (GetByID S i s)))"
    by (simp add: g is_mutating_def)
  have lm: "\<not> list_ex is_mutating (new_calls s (snd (ListByPostID S p f s)))"
    by (simp add: l is_mutating_def)
  have ok: "\<forall>c w'. GetComment S i (world s) = (Inr c, w') \<longrightarrow>
        GetByID S i s = (Inr c, s\<lparr>world := w', calls := calls s @ [Call_GetComment i]\<rparr>)"
    by (simp add: GetByID_def invoke_eq)
  have nf: "\<forall>err w'. GetComment S i (world s) = (Inl err, w') \<and> errors_Is err ErrCommentNotFound \<longrightarrow>
        GetByID S i s = (Inl err, s\<lparr>world := w', calls := calls s @ [Call_GetComment i]\<rparr>)"
    by (simp add: GetByID_def invoke_eq handleErr_def)
  have ge: "\<forall>err w'. GetComment S i (world s) = (Inl err, w') \<longrightarrow>
        GetByID S i s = apfst Inl (handleErr ''service.comment.get_by_id'' err
          (s\<lparr>world := w', calls := calls s @ [Call_GetComment i]\<rparr>))"
    by (intro allI impI) (erule GetByID_GetComment_fails)
  have lok: "\<forall>page w'. ListPostComments S p f (world s) = (Inr page, w') \<longrightarrow>
        ListByPostID S p f s
          = (Inr page, s\<lparr>world := w', calls := calls s @ [Call_ListPostComments p f]\<rparr>)"
    by (simp add: ListByPostID_def invoke_eq)
  have le: "\<forall>err w'. ListPostComments S p f (world s) = (Inl err, w') \<longrightarrow>
        ListByPostID S p f s = apfst Inl (handleErr ''service.comment.list_by_post_id'' err
          (s\<lparr>world := w', calls := calls s @ [Call_ListPostComments p f]\<rparr>))"
    by (intro allI impI) (erule ListByPostID_ListPostComments_fails)
  show ?thesis
    by (intro conjI) (fact ok nf ge g gm lok le l lm)+
qed

lemma mem1_list_P1:
  "ListPostComments mem_service ''P1'' () (world (start mem1)) = (Inr ([c1], 1), mem1)"
  by (simp add: mem_service_def mem_ListPostComments_def start_def mem1_def c1_def Let_def)

theorem C9_reads_pass_through_both_ways_witness:
  "GetComment mem_service ''C1'' (world (start mem1)) = (Inr c1, mem1)
   \<and> GetByID mem_service ''C1'' (start mem1)
       = (Inr c1, \<lparr>world = mem1, calls = [Call_GetComment ''C1''], logged = []\<rparr>)
   \<and> GetComment mem_service ''C2'' (world (start mem1)) = (Inl ErrCommentNotFound, mem1)
   \<and> errors_Is ErrCommentNotFound ErrCommentNotFound
   \<and> GetByID mem_service ''C2'' (start mem1)
       = (Inl ErrCommentNotFound, \<lparr>world = mem1, calls = [Call_GetComment ''C2''], logged = []\<rparr>)
   \<and> ListPostComments mem_service ''P1'' () (world (start mem1)) = (Inr ([c1], 1), mem1)
   \<and> ListByPostID mem_service ''P1'' () (start mem1)
       = (Inr ([c1], 1), \<lparr>world = mem1, calls = [Call_ListPostComments ''P1'' ()], logged = []\<rparr>)
   \<and> GetComment guarded_service ''C1'' (world (start mem1)) = (Inl ErrUnauthorized, mem1)
   \<and> GetByID guarded_service ''C1'' (start mem1)
       = (Inl ErrInternal,
          \<lparr>world = mem1, calls = [Call_GetComment ''C1''],
           logged = [(''service.comment.get_by_id'', ErrUnauthorized)]\<rparr>)
   \<and> ListPostComments failing_service ''P1'' () (world (start mem1))
       = (Inl (Other ''connection reset''), mem1)
   \<and> ListByPostID failing_service ''P1'' () (start mem1)
       = (Inl ErrInternal,
          \<lparr>world = mem1, calls = [Call_ListPostComments ''P1'' ()],
           logged = [(''service.comment.list_by_post_id'', Other ''connection reset'')]\<rparr>)"
proof -
  note M1 = C9_reads_pass_through_both_ways
      [where S = mem_service and i = "''C1''" and s = "start mem1" and p = "''P1''" and f = "()"]
  note M2 = C9_reads_pass_through_both_ways
      [where S = mem_service and i = "''C2''" and s = "start mem1" and p = "''P1''" and f = "()"]
  note G = C9_reads_pass_through_both_ways
      [where S = guarded_service and i = "''C1''" and s = "start mem1" and p = "''P1''" and f = "()"]
  note F = C9_reads_pass_through_both_ways
      [where S = failing_service and i = "''C1''" and s = "start mem1" and p = "''P1''" and f = "()"]
  have e: "errors_Is ErrCommentNotFound ErrCommentNotFound" by simp
  have st: "start mem1 = \<lparr>world = mem1, calls = [], logged = []\<rparr>"
    by (simp add: start_def)
  have a: "GetByID mem_service ''C1'' (start mem1)
      = (Inr c1, \<lparr>world = mem1, calls = [Call_GetComment ''C1''], logged = []\<rparr>)"
  proof -
    from M1 [THEN conjunct1] mem1_fetch_C1
    have "GetByID mem_service ''C1'' (start mem1)
      = (Inr c1, (start mem1)\<lparr>world := mem1, calls := calls (start mem1) @ [Call_GetComment ''C1'']\<rparr>)"
      by blast
    then show ?thesis by (simp add: st)
  qed
  have b: "GetByID mem_service ''C2'' (start mem1)
      = (Inl ErrCommentNotFound, \<lparr>world = mem1, calls = [Call_GetComment ''C2''], logged = []\<rparr>)"
  proof -
    from M2 [THEN conjunct2, THEN conjunct1] mem1_no_C2 e
    have "GetByID mem_service ''C2'' (start mem1)
      = (Inl ErrCommentNotFound,
         (start mem1)\<lparr>world := mem1, calls := calls (start mem1) @ [Call_GetComment ''C2'']\<rparr>)"
      by blast
    then show ?thesis by (simp add: st)
  qed
  have c: "ListByPostID mem_service ''P1'' () (start mem1)
      = (Inr ([c1], 1), \<lparr>world = mem1, calls = [Call_ListPostComments ''P1'' ()], logged = []\<rparr>)"
  proof -
    from M1 [THEN conjunct2, THEN conjunct2, THEN conjunct2, THEN conjunct2, THEN conjunct2,
             THEN conjunct1] mem1_list_P1
    have "ListByPostID mem_service ''P1'' () (start mem1)
      = (Inr ([c1], 1), (start mem1)\<lparr>world := mem1,
           calls := calls (start mem1) @ [Call_ListPostComments ''P1'' ()]\<rparr>)"
      by blast
    then show ?thesis by (simp add: st)
  qed
  have d: "GetByID guarded_service ''C1'' (start mem1)
       = (Inl ErrInternal,
          \<lparr>world = mem1, calls = [Call_GetComment ''C1''],
           logged = [(''service.comment.get_by_id'', ErrUnauthorized)]\<rparr>)"
  proof -
    from G [THEN conjunct2, THEN conjunct2, THEN conjunct1] guarded_fetch
    have "GetByID guarded_service ''C1'' (start mem1)
        = apfst Inl (handleErr ''service.comment.get_by_id'' ErrUnauthorized
            ((start mem1)\<lparr>world := mem1, calls := calls (start mem1) @ [Call_GetComment ''C1'']\<rparr>))"
      by blast
    then show ?thesis by (simp add: handleErr_def st)
  qed
  have f: "ListByPostID failing_service ''P1'' () (start mem1)
       = (Inl ErrInternal,
          \<lparr>world = mem1, calls = [Call_ListPostComments ''P1'' ()],
           logged = [(''service.comment.list_by_post_id'', Other ''connection reset'')]\<rparr>)"
  proof -
    from F [THEN conjunct2, THEN conjunct2, THEN conjunct2, THEN conjunct2, THEN conjunct2,
            THEN conjunct2, THEN conjunct1] failing_list
    have "ListByPostID failing_service ''P1'' () (start mem1)
        = apfst Inl (handleErr ''service.comment.list_by_post_id'' (Other ''connection reset'')
            ((start mem1)\<lparr>world := mem1,
               calls := calls (start mem1) @ [Call_ListPostComments ''P1'' ()]\<rparr>))"
      by blast
    then show ?thesis by (simp add: handleErr_def st)
  qed
  show ?thesis
    by (intro conjI)
       (fact mem1_fetch_C1 a mem1_no_C2 e b mem1_list_P1 c guarded_fetch d failing_list f)+
qed

section \<open>What Create builds\<close>

text \<open>
  Over a creator that returns the comment it was given, the comment \<open>Create\<close> returns
  has the id \<open>NewID\<close> produced, the request's post id and body, and the user the
  directory port resolved.
\<close>

lemma Create_over_echoing_creator:
  assumes "GetUser S (create_UserID dto) (world s) = (Inr user, w1)"
    and "NewID S w1 = (newid, w2)"
    and "\<forall>c w. fst (CreateComment S c w) = Inr c"
  shows "\<exists>c. fst (Create S dto s) = Inr c \<and> ID c = newid \<and> PostID c = create_PostID dto
           \<and> User c = user \<and> Body c = create_Body dto"
proof -
  obtain t1 w3 where a: "Now S w2 = (t1, w3)" by (cases "Now S w2")
  obtain t2 w4 where b: "Now S w3 = (t2, w4)" by (cases "Now S w3")
  let ?c = "\<lparr>ID = newid, PostID = create_PostID dto, User = user, Body = create_Body dto,
             CreatedAt = t1, UpdatedAt = t2\<rparr>"
  obtain r w5 where p: "CreateComment S ?c w4 = (r, w5)" by (cases "CreateComment S ?c w4")
  with assms(3) have r: "r = Inr ?c" by (metis fst_conv)
  have "fst (Create S dto s) = Inr ?c"
    using assms(1,2) a b p r by (simp add: Create_def invoke_eq ambient_eq Let_def)
  then show ?thesis
    by (intro exI [of _ ?c]) simp
qed

text \<open>
  C4, evaluated where the code fails it. \<open>Create\<close> fills \<open>CreatedAt\<close> and \<open>UpdatedAt\<close>
  from two calls of \<open>time.Now()\<close>, one after the other. Over the in-memory storage, which
  returns the comment it was given, and a clock that has moved between the two readings,
  the comment returned for user 9 has the id and the user it should have and
  \<open>created_at = 20\<close>, \<open>updated_at = 21\<close>.
\<close>

theorem C4_Create_reads_the_clock_twice:
  "fst (Create mem_service \<lparr>create_UserID = 9, create_PostID = ''P1'', create_Body = ''hello''\<rparr>
          (start mem1))
     = Inr \<lparr>ID = ''a'', PostID = ''P1'', User = ann, Body = ''hello'', CreatedAt = 20, UpdatedAt = 21\<rparr>
   \<and> CreatedAt \<lparr>ID = ''a'', PostID = ''P1'', User = ann, Body = ''hello'', CreatedAt = 20,
                 UpdatedAt = 21\<rparr>
     \<noteq> UpdatedAt \<lparr>ID = ''a'', PostID = ''P1'', User = ann, Body = ''hello'', CreatedAt = 20,
                   UpdatedAt = 21\<rparr>"
  by (simp add: Create_def invoke_def ambient_def mem_service_def mem_GetUser_def
      mem_NewID_def mem_Now_def mem_CreateComment_def start_def mem1_def ann_def Let_def)

section \<open>What Update changes\<close>

text \<open>
  C5, as the specification states it, has \<open>updated_at\<close> never go back and has the
  returned comment keep the stored one's fields. \<open>Update\<close> sets \<open>updated_at\<close> to the
  clock's reading without looking at the stored value: with the stored comment updated
  at 10 and the clock at 5, the comment passed to the update port (and returned by the
  in-memory storage) is updated at 5. And the returned comment is the port's: over an
  updater that answers with the zero comment it has lost the id.
\<close>

theorem C5_clock_behind_stored_time:
  "Update mem_service \<lparr>update_CommentID = ''C1'', update_UserID = 9, update_Body = ''edited''\<rparr>
      (start (mem1\<lparr>clock := 5\<rparr>))
     = (Inr (c1\<lparr>Body := ''edited'', UpdatedAt := 5\<rparr>),
        \<lparr>world = mem1\<lparr>stored := [c1\<lparr>Body := ''edited'', UpdatedAt := 5\<rparr>], clock := 6\<rparr>,
         calls = [Call_GetComment ''C1'', Call_UpdateComment (c1\<lparr>Body := ''edited'', UpdatedAt := 5\<rparr>)],
         logged = []\<rparr>)
   \<and> UpdatedAt c1 = 10
   \<and> UpdatedAt (c1\<lparr>Body := ''edited'', UpdatedAt := 5\<rparr>) < UpdatedAt c1
   \<and> fst (Update blank_service \<lparr>update_CommentID = ''C1'', update_UserID = 9, update_Body = ''edited''\<rparr>
          (start mem1))
     = Inr zero_Comment
   \<and> ID c1 = ''C1''
   \<and> ID zero_Comment = []"
  by (simp add: Update_def invoke_def ambient_def mem_service_def blank_service_def mem_GetComment_def
      mem_Now_def mem_UpdateComment_def start_def mem1_def ann_def c1_def zero_Comment_def Let_def)

text \<open>
  C5, amended. When the fetch port returns the stored comment and the caller is its
  author, \<open>Update\<close> invokes the update port once, after \<open>GetComment\<close>, with a comment
  that has the stored comment's \<open>id\<close>, \<open>post_id\<close>, \<open>user\<close> and \<open>created_at\<close>, the
  request's body, and the clock's reading as \<open>updated_at\<close>; that is no earlier than the
  stored \<open>updated_at\<close> whenever the clock reads no earlier than it. When the port
  succeeds, \<open>Update\<close> returns the comment the port returned.
\<close>

theorem C5_Update_keeps_frame_of_stored_comment:
  assumes "GetComment S (update_CommentID dto) (world s) = (Inr old, w1)"
    and "User_ID (User old) = update_UserID dto"
    and "Now S w1 = (now, w2)"
  shows "\<exists>c. new_calls s (snd (Update S dto s))
               = [Call_GetComment (update_CommentID dto), Call_UpdateComment c]
           \<and> ID c = ID old \<and> PostID c = PostID old \<and> User c = User old
           \<and> CreatedAt c = CreatedAt old \<and> Body c = update_Body dto \<and> UpdatedAt c = now
           \<and> (UpdatedAt old \<le> now \<longrightarrow> UpdatedAt old \<le> UpdatedAt c)
           \<and> (\<forall>r w3. UpdateComment S c w2 = (Inr r, w3) \<longrightarrow> fst (Update S dto s) = Inr r)"
proof -
  let ?c = "old\<lparr>Body := update_Body dto, UpdatedAt := now\<rparr>"
  let ?s2 = "s\<lparr>calls := calls s @ [Call_GetComment (update_CommentID dto)], world := w2\<rparr>"
  have step: "Update S dto s =
      (case invoke (Call_UpdateComment ?c) (UpdateComment S ?c) ?s2 of
         (Inl err, s3) \<Rightarrow> apfst Inl (handleErr ''service.comment.update'' err s3)
       | (Inr updatedComment, s3) \<Rightarrow> (Inr updatedComment, s3))"
    using assms by (simp add: Update_def invoke_eq ambient_eq Let_def)
  have calls: "new_calls s (snd (Update S dto s))
      = [Call_GetComment (update_CommentID dto), Call_UpdateComment ?c]"
    unfolding step invoke_def new_calls_def
    by (simp split: prod.splits sum.splits add: handleErr_calls)
  have ok: "\<And>r w3. UpdateComment S ?c w2 = (Inr r, w3) \<Longrightarrow> fst (Update S dto s) = Inr r"
    unfolding step by (simp add: invoke_def)
  show ?thesis
    by (rule exI [of _ ?c]) (simp add: calls ok)
qed

lemma mem1_fetch_C1_for_edit:
  "GetComment mem_service
     (update_CommentID \<lparr>update_CommentID = ''C1'', update_UserID = 9, update_Body = ''edited''\<rparr>)
     (world (start mem1)) = (Inr c1, mem1)"
  using mem1_fetch_C1 by simp

lemma c1_author_is_9:
  "User_ID (User c1)
     = update_UserID \<lparr>update_CommentID = ''C1'', update_UserID = 9, update_Body = ''edited''\<rparr>"
  by (simp add: c1_def ann_def)

lemma mem1_Now: "Now mem_service mem1 = (20, mem1\<lparr>clock := 21\<rparr>)"
  by (simp add: mem_service_def mem_Now_def mem1_def)

theorem C5_Update_keeps_frame_of_stored_comment_witness:
  "GetComment mem_service ''C1'' (world (start mem1)) = (Inr c1, mem1)
   \<and> User_ID (User c1) = 9
   \<and> Now mem_service mem1 = (20, mem1\<lparr>clock := 21\<rparr>)
   \<and> UpdatedAt c1 \<le> 20
   \<and> (\<exists>c. calls (snd (Update mem_service
                \<lparr>update_CommentID = ''C1'', update_UserID = 9, update_Body = ''edited''\<rparr> (start mem1)))
              = [Call_GetComment ''C1'', Call_UpdateComment c]
            \<and> ID c = ID c1 \<and> PostID c = PostID c1 \<and> User c = User c1
            \<and> CreatedAt c = CreatedAt c1 \<and> Body c = ''edited'' \<and> UpdatedAt c = 20
            \<and> UpdatedAt c1 \<le> UpdatedAt c
            \<and> fst (Update mem_service
                \<lparr>update_CommentID = ''C1'', update_UserID = 9, update_Body = ''edited''\<rparr> (start mem1))
              = Inr c)"
proof -
  let ?dto = "\<lparr>update_CommentID = ''C1'', update_UserID = 9, update_Body = ''edited''\<rparr>"
  have le: "UpdatedAt c1 \<le> 20"
    by (simp add: c1_def)
  obtain c where c:
    "new_calls (start mem1) (snd (Update mem_service ?dto (start mem1)))
       = [Call_GetComment (update_CommentID ?dto), Call_UpdateComment c]"
    "ID c = ID c1" "PostID c = PostID c1" "User c = User c1" "CreatedAt c = CreatedAt c1"
    "Body c = update_Body ?dto" "UpdatedAt c = 20"
    "UpdatedAt c1 \<le> 20 \<longrightarrow> UpdatedAt c1 \<le> UpdatedAt c"
    "\<forall>r w3. UpdateComment mem_service c (mem1\<lparr>clock := 21\<rparr>) = (Inr r, w3) \<longrightarrow>
       fst (Update mem_service ?dto (start mem1)) = Inr r"
    using C5_Update_keeps_frame_of_stored_comment [OF mem1_fetch_C1_for_edit c1_author_is_9 mem1_Now]
    by blast
  have "\<exists>w3. UpdateComment mem_service c (mem1\<lparr>clock := 21\<rparr>) = (Inr c, w3)"
    by (simp add: mem_service_def mem_UpdateComment_def)
  with c(9) have r: "fst (Update mem_service ?dto (start mem1)) = Inr c"
    by blast
  have k: "calls (snd (Update mem_service ?dto (start mem1)))
      = [Call_GetComment ''C1'', Call_UpdateComment c]"
    using c(1) by (simp add: new_calls_def start_def)
  have "\<exists>c. calls (snd (Update mem_service ?dto (start mem1)))
              = [Call_GetComment ''C1'', Call_UpdateComment c]
            \<and> ID c = ID c1 \<and> PostID c = PostID c1 \<and> User c = User c1
            \<and> CreatedAt c = CreatedAt c1 \<and> Body c = ''edited'' \<and> UpdatedAt c = 20
            \<and> UpdatedAt c1 \<le> UpdatedAt c
            \<and> fst (Update mem_service ?dto (start mem1)) = Inr c"
    using c(2-8) r k le by (intro exI [of _ c]) simp
  then show ?thesis
    using mem1_fetch_C1 c1_author_is_9 mem1_Now le by simp
qed

section \<open>The client page: what is published\<close>

lemma js_split_unfold:
  "js_split sep s =
     takeWhile (\<lambda>x. x \<noteq> sep) s
       # (case dropWhile (\<lambda>x. x \<noteq> sep) s of [] \<Rightarrow> [] | d # rest \<Rightarrow> js_split sep rest)"
  by (induction s) (auto split: list.splits)

lemma js_split_second:
  assumes "sep \<in> set s"
  shows "js_index (js_split sep s) 1
           = Some (takeWhile (\<lambda>x. x \<noteq> sep) (tl (dropWhile (\<lambda>x. x \<noteq> sep) s)))"
proof -
  from assms obtain rest where d: "dropWhile (\<lambda>x. x \<noteq> sep) s = sep # rest"
    by (metis (mono_tags, lifting) dropWhile_eq_Nil_conv hd_dropWhile list.exhaust_sel)
  have "js_split sep s = takeWhile (\<lambda>x. x \<noteq> sep) s # js_split sep rest"
    using js_split_unfold [of sep s] d by simp
  moreover have "js_split sep rest = takeWhile (\<lambda>x. x \<noteq> sep) rest
       # (case dropWhile (\<lambda>x. x \<noteq> sep) rest of [] \<Rightarrow> [] | d # r \<Rightarrow> js_split sep r)"
    by (rule js_split_unfold)
  ultimately show ?thesis
    using d by (simp add: js_index_def)
qed

lemma takeWhile_strict_prefix:
  "x \<in> set xs \<Longrightarrow> strict_prefix (takeWhile (\<lambda>y. y \<noteq> x) xs) xs"
proof -
  assume "x \<in> set xs"
  then have "dropWhile (\<lambda>y. y \<noteq> x) xs \<noteq> []"
    by simp
  then have "takeWhile (\<lambda>y. y \<noteq> x) xs \<noteq> xs"
    by (metis takeWhile_dropWhile_id self_append_conv)
  moreover have "prefix (takeWhile (\<lambda>y. y \<noteq> x) xs) xs"
    by (metis takeWhile_dropWhile_id prefixI)
  ultimately show ?thesis by (simp add: strict_prefix_def)
qed

text \<open>
  C10. The element of a comment has the id \<open>comment-\<close> followed by the comment's id.
  Its delete button publishes an envelope of type \<open>delete_comment\<close> with no body, its
  update button (when the prompt gave a text that is not empty, and nothing otherwise)
  one of type \<open>update_comment\<close> with that text as body; the \<open>comment_id\<close> of both is
  the part of the element id between its first and its second \<open>-\<close>. That is the
  comment's id up to its first \<open>-\<close>: a strict prefix of the id when the id contains a
  \<open>-\<close>, the whole id when it does not.
\<close>

theorem C10_published_envelope_has_id_between_dashes:
  "el_id (Comment_toHtml c) = ''comment-'' @ c_id c
   \<and> delete_onclick (Comment_toHtml c)
      = \<lparr>env_type = ''delete_comment'',
         env_comment_id = Some (between_dashes (el_id (Comment_toHtml c))),
         env_body = None\<rparr>
   \<and> (body \<noteq> [] \<longrightarrow>
         update_onclick (Comment_toHtml c) (Some body)
           = Some (updateComment (el_id (Comment_toHtml c)) body))
   \<and> update_onclick (Comment_toHtml c) None = None
   \<and> update_onclick (Comment_toHtml c) (Some []) = None
   \<and> updateComment (el_id (Comment_toHtml c)) body
      = \<lparr>env_type = ''update_comment'',
         env_comment_id = Some (between_dashes (el_id (Comment_toHtml c))),
         env_body = Some body\<rparr>
   \<and> between_dashes (el_id (Comment_toHtml c)) = takeWhile (\<lambda>x. x \<noteq> CHR ''-'') (c_id c)
   \<and> (CHR ''-'' \<in> set (c_id c) \<longrightarrow> strict_prefix (between_dashes (el_id (Comment_toHtml c))) (c_id c))
   \<and> (CHR ''-'' \<notin> set (c_id c) \<longrightarrow> between_dashes (el_id (Comment_toHtml c)) = c_id c)"
proof -
  have e: "el_id (Comment_toHtml c) = ''comment-'' @ c_id c"
    by (simp add: Comment_toHtml_def)
  have "CHR ''-'' \<in> set (el_id (Comment_toHtml c))"
    by (simp add: e)
  then have s: "js_index (js_split CHR ''-'' (el_id (Comment_toHtml c))) 1
      = Some (between_dashes (el_id (Comment_toHtml c)))"
    unfolding between_dashes_def by (rule js_split_second)
  have b: "between_dashes (el_id (Comment_toHtml c)) = takeWhile (\<lambda>x. x \<noteq> CHR ''-'') (c_id c)"
    by (simp add: e between_dashes_def)
  have d: "delete_onclick (Comment_toHtml c)
      = \<lparr>env_type = ''delete_comment'',
         env_comment_id = Some (between_dashes (el_id (Comment_toHtml c))),
         env_body = None\<rparr>"
    using s by (simp add: delete_onclick_def deleteComment_def)
  have u: "updateComment (el_id (Comment_toHtml c)) body
      = \<lparr>env_type = ''update_comment'',
         env_comment_id = Some (between_dashes (el_id (Comment_toHtml c))),
         env_body = Some body\<rparr>"
    using s by (simp add: updateComment_def)
  have v: "body \<noteq> [] \<longrightarrow> update_onclick (Comment_toHtml c) (Some body)
           = Some (updateComment (el_id (Comment_toHtml c)) body)"
    by (simp add: update_onclick_def)
  have n1: "update_onclick (Comment_toHtml c) None = None"
    by (simp add: update_onclick_def)
  have n2: "update_onclick (Comment_toHtml c) (Some []) = None"
    by (simp add: update_onclick_def)
  have p: "CHR ''-'' \<in> set (c_id c) \<longrightarrow>
      strict_prefix (between_dashes (el_id (Comment_toHtml c))) (c_id c)"
    unfolding b by (simp add: takeWhile_strict_prefix)
  have f: "CHR ''-'' \<notin> set (c_id c) \<longrightarrow> between_dashes (el_id (Comment_toHtml c)) = c_id c"
    unfolding b by (auto simp add: takeWhile_eq_all_conv)
  show ?thesis
    by (intro conjI) (fact e d v n1 n2 u b p f)+
qed

theorem C10_published_envelope_has_id_between_dashes_witness:
  "CHR ''-'' \<in> set (c_id (cmt ''3f2a-11ee''))
   \<and> delete_onclick (Comment_toHtml (cmt ''3f2a-11ee''))
       = \<lparr>env_type = ''delete_comment'', env_comment_id = Some ''3f2a'', env_body = None\<rparr>
   \<and> ''new'' \<noteq> []
   \<and> update_onclick (Comment_toHtml (cmt ''3f2a-11ee'')) (Some ''new'')
       = Some \<lparr>env_type = ''update_comment'', env_comment_id = Some ''3f2a'', env_body = Some ''new''\<rparr>
   \<and> strict_prefix ''3f2a'' ''3f2a-11ee''
   \<and> CHR ''-'' \<notin> set (c_id (cmt ''66497252''))
   \<and> delete_onclick (Comment_toHtml (cmt ''66497252''))
       = \<lparr>env_type = ''delete_comment'', env_comment_id = Some ''66497252'', env_body = None\<rparr>"
proof -
  have i: "c_id (cmt ''3f2a-11ee'') = ''3f2a-11ee''" "c_id (cmt ''66497252'') = ''66497252''"
    by (simp_all add: cmt_def)
  have m: "CHR ''-'' \<in> set (c_id (cmt ''3f2a-11ee''))"
    by (simp add: i)
  have n: "CHR ''-'' \<notin> set (c_id (cmt ''66497252''))"
    by (simp add: i)
  have t: "takeWhile (\<lambda>x. x \<noteq> CHR ''-'') (c_id (cmt ''3f2a-11ee'')) = ''3f2a''"
    by (simp add: i)
  have w: "''new'' \<noteq> []"
    by simp
  note A = C10_published_envelope_has_id_between_dashes
      [where c = "cmt ''3f2a-11ee''" and body = "''new''"]
  note B = C10_published_envelope_has_id_between_dashes
      [where c = "cmt ''66497252''" and body = "''new''"]
  have ab: "between_dashes (el_id (Comment_toHtml (cmt ''3f2a-11ee''))) = ''3f2a''"
    by (simp only: A [THEN conjunct2, THEN conjunct2, THEN conjunct2, THEN conjunct2, THEN conjunct2, THEN conjunct2, THEN conjunct1] t)
  have "between_dashes (el_id (Comment_toHtml (cmt ''66497252''))) = c_id (cmt ''66497252'')"
    using B [THEN conjunct2, THEN conjunct2, THEN conjunct2, THEN conjunct2, THEN conjunct2, THEN conjunct2, THEN conjunct2, THEN conjunct2] n by blast
  then have bb: "between_dashes (el_id (Comment_toHtml (cmt ''66497252''))) = ''66497252''"
    by (simp only: i)
  have a1: "delete_onclick (Comment_toHtml (cmt ''3f2a-11ee''))
       = \<lparr>env_type = ''delete_comment'', env_comment_id = Some ''3f2a'', env_body = None\<rparr>"
    by (simp only: A [THEN conjunct2, THEN conjunct1] ab)
  have "update_onclick (Comment_toHtml (cmt ''3f2a-11ee'')) (Some ''new'')
       = Some (updateComment (el_id (Comment_toHtml (cmt ''3f2a-11ee''))) ''new'')"
    using A [THEN conjunct2, THEN conjunct2, THEN conjunct1] w by blast
  then have a2: "update_onclick (Comment_toHtml (cmt ''3f2a-11ee'')) (Some ''new'')
       = Some \<lparr>env_type = ''update_comment'', env_comment_id = Some ''3f2a'', env_body = Some ''new''\<rparr>"
    by (simp only: A [THEN conjunct2, THEN conjunct2, THEN conjunct2, THEN conjunct2, THEN conjunct2, THEN conjunct1] ab)
  have "strict_prefix (between_dashes (el_id (Comment_toHtml (cmt ''3f2a-11ee''))))
          (c_id (cmt ''3f2a-11ee''))"
    using A [THEN conjunct2, THEN conjunct2, THEN conjunct2, THEN conjunct2, THEN conjunct2, THEN conjunct2, THEN conjunct2, THEN conjunct1] m by blast
  then have a3: "strict_prefix ''3f2a'' ''3f2a-11ee''"
    by (simp only: ab i)
  have b1: "delete_onclick (Comment_toHtml (cmt ''66497252''))
       = \<lparr>env_type = ''delete_comment'', env_comment_id = Some ''66497252'', env_body = None\<rparr>"
    by (simp only: B [THEN conjunct2, THEN conjunct1] bb)
  show ?thesis
    by (intro conjI) (fact m a1 w a2 a3 n b1)+
qed

section \<open>The client page: what is received\<close>

lemma static_ids_not_comment: "''comment-'' @ i \<notin> set static_ids"
  by (simp add: static_ids_def)

lemma handleNewComment_entries:
  "entries (p_id (data_payload ctx)) (handleNewComment ctx messages)
     = entries (p_id (data_payload ctx)) messages
       @ [Comment_node (Comment_toHtml
            \<lparr>c_id = p_id (data_payload ctx), c_post_id = p_post_id (data_payload ctx),
             c_user = p_user (data_payload ctx), c_body = safeTagsReplace (p_body (data_payload ctx)),
             c_created_at = p_created_at (data_payload ctx),
             c_updated_at = p_updated_at (data_payload ctx), c_meta = Some (ctx_json ctx)\<rparr>)]"
  by (simp add: handleNewComment_def drawComment_def entries_def Comment_toHtml_def Let_def)

text \<open>
  C6, as the specification states it, has a second delivery of a \<open>new_comment\<close> leave
  one visible entry for its id. \<open>handleNewComment\<close> draws the comment without looking
  for an element of that id: on an empty page, the first delivery leaves one entry for
  the id \<open>x\<close> and the second delivery of the same publication leaves two.
\<close>

theorem C6_second_delivery_adds_second_entry:
  "handlePublication (pub ''new_comment'' ''x'' ''hi'') [] = Inr [x_node]
   \<and> entries ''x'' [x_node] = [x_node]
   \<and> handlePublication (pub ''new_comment'' ''x'' ''hi'') [x_node] = Inr [x_node, x_node]
   \<and> entries ''x'' [x_node, x_node] = [x_node, x_node]"
  by (simp add: handlePublication_def handleNewComment_def drawComment_def entries_def
      Comment_toHtml_def safeTagsReplace_def pub_def pay_def bob_def x_node_def truthy_def Let_def)

text \<open>
  C6, amended. Every delivery of a \<open>new_comment\<close> appends one entry for its id, whether
  or not the page has one already: after one delivery the id has one visible entry more
  than before, after a second delivery of the same publication two more.
\<close>

theorem C6_each_delivery_adds_one_entry:
  assumes "data_type ctx = ''new_comment''"
  shows "\<exists>once twice.
           handlePublication ctx messages = Inr once
           \<and> handlePublication ctx once = Inr twice
           \<and> length (entries (p_id (data_payload ctx)) once)
               = Suc (length (entries (p_id (data_payload ctx)) messages))
           \<and> length (entries (p_id (data_payload ctx)) twice)
               = Suc (Suc (length (entries (p_id (data_payload ctx)) messages)))"
  using assms
  by (simp add: handlePublication_def handleNewComment_entries)

theorem C6_each_delivery_adds_one_entry_witness:
  "data_type (pub ''new_comment'' ''x'' ''hi'') = ''new_comment''
   \<and> (\<exists>once twice.
         handlePublication (pub ''new_comment'' ''x'' ''hi'') [] = Inr once
         \<and> handlePublication (pub ''new_comment'' ''x'' ''hi'') once = Inr twice
         \<and> length (entries ''x'' once) = 1 \<and> length (entries ''x'' twice) = 2)"
proof -
  have t: "data_type (pub ''new_comment'' ''x'' ''hi'') = ''new_comment''"
    by (simp add: pub_def)
  have i: "p_id (data_payload (pub ''new_comment'' ''x'' ''hi'')) = ''x''"
    by (simp add: pub_def pay_def)
  have z: "entries ''x'' [] = []"
    by (simp add: entries_def)
  show ?thesis
    using C6_each_delivery_adds_one_entry [OF t, of "[]"] t by (simp add: i z numeral_2_eq_2)
qed

lemma getElementById_None_iff:
  "getElementById messages (''comment-'' @ i) = None \<longleftrightarrow> entries i messages = []"
  by (induction messages "''comment-'' @ i" rule: getElementById.induct)
     (auto simp add: entries_def)

lemma handleRemoveComment_unknown:
  "entries (p_comment_id (data_payload ctx)) messages = [] \<Longrightarrow>
     handleRemoveComment ctx messages = messages"
  by (simp add: handleRemoveComment_def getElementById_None_iff [symmetric] Let_def)

lemma handleEditComment_unknown:
  "entries (p_id (data_payload ctx)) messages = [] \<Longrightarrow>
     handleEditComment ctx messages = Inl TypeError"
  by (simp add: handleEditComment_def getElementById_None_iff [symmetric] Let_def)

text \<open>
  C7, evaluated where the page fails it. The page shows the one comment \<open>y\<close> and has no
  entry for \<open>x\<close>. A \<open>remove_comment\<close> for \<open>x\<close> leaves the page as it is, a benign
  no-op; an \<open>edit_comment\<close> for \<open>x\<close> reads \<open>querySelector\<close> of the \<open>null\<close> that
  \<open>getElementById\<close> returned, and throws.
\<close>

theorem C7_edit_of_unknown_id_throws:
  "entries ''x'' (handleNewComment (pub ''new_comment'' ''y'' ''hi'') []) = []
   \<and> handlePublication (pub ''edit_comment'' ''x'' ''edited'')
       (handleNewComment (pub ''new_comment'' ''y'' ''hi'') []) = Inl TypeError
   \<and> handlePublication (pub ''remove_comment'' ''x'' [])
       (handleNewComment (pub ''new_comment'' ''y'' ''hi'') [])
       = Inr (handleNewComment (pub ''new_comment'' ''y'' ''hi'') [])"
  by (simp add: handlePublication_def handleEditComment_def handleRemoveComment_def
      handleNewComment_def drawComment_def entries_def Comment_toHtml_def pub_def pay_def Let_def)

end
